theory Spec2Isabelle
  imports Complex_Main
begin

section \<open>Values shared by both versions of the dashboard\<close>

text \<open>
  The repository holds two versions of the dashboard component: \<^verbatim>\<open>App.tsx\<close> (the one
  \<^verbatim>\<open>main.tsx\<close> mounts) and \<^verbatim>\<open>newApp.tsx\<close>. Both are embedded: the handlers of
  \<^verbatim>\<open>App.tsx\<close> keep their names, those of \<^verbatim>\<open>newApp.tsx\<close> carry the prefix \<open>new_\<close>.

  A JavaScript \<^verbatim>\<open>number\<close> is either \<^verbatim>\<open>NaN\<close> or a finite value, read as a real number:
  rounding to a double and overflow to an infinity are not modelled, the comparisons and the
  sign of a product or quotient by a positive constant do not depend on them.
\<close>

datatype number = NaN | Finite real

fun times_number :: "number \<Rightarrow> real \<Rightarrow> number" where
  "times_number NaN k = NaN"
| "times_number (Finite x) k = Finite (x * k)"

text \<open>\<^verbatim>\<open>a >= b\<close> on numbers: false as soon as one side is \<^verbatim>\<open>NaN\<close>.\<close>

fun ge_number :: "number \<Rightarrow> number \<Rightarrow> bool" where
  "ge_number (Finite a) (Finite b) = (b \<le> a)"
| "ge_number _ _ = False"

text \<open>
  Modelled from the spec: the smallest-unit-per-whole-unit constant. The source imports
  \<^verbatim>\<open>LAMPORTS_PER_SOL\<close> from \<^verbatim>\<open>@solana/web3.js\<close>, which is not under src/; that
  library exports it as 1000000000.
\<close>

definition LAMPORTS_PER_SOL :: real where
  "LAMPORTS_PER_SOL = 1000000000"

text \<open>
  Modelled from the spec: the identifier of the token-2022 program. The source imports
  \<^verbatim>\<open>TOKEN_2022_PROGRAM_ID\<close> from \<^verbatim>\<open>@solana/spl-token\<close>, which is not under src/;
  this is its base-58 text.
\<close>

definition TOKEN_2022_PROGRAM_ID :: string where
  "TOKEN_2022_PROGRAM_ID = ''TokenzQdBNbLqP5VEhdkAS6EPFLC1PHnBqCXEpPxuEb''"

type_synonym pubkey = string
type_synonym bytes = "nat list"

text \<open>
  A thrown value: \<open>Error m\<close> is \<^verbatim>\<open>new Error(m)\<close> raised by the component itself,
  \<open>Thrown m\<close> is whatever a collaborator (wallet, RPC client, library) rejected with.
\<close>

datatype error = Error string | Thrown string

subsection \<open>The interfaces of the source\<close>

record Token =
  name :: string
  pubKey :: pubkey
  balance :: number
  symbol :: string

datatype TransactionConfirmationStatus = Processed | Confirmed | Finalized

text \<open>
  What the field \<^verbatim>\<open>status\<close> of a \<^verbatim>\<open>TransactionItem\<close> holds when the program runs:
  the interface declares \<^verbatim>\<open>TransactionConfirmationStatus | "unknown"\<close>, and a JavaScript
  property can also hold \<^verbatim>\<open>undefined\<close>, whatever the interface says.
\<close>

datatype status_value = Status TransactionConfirmationStatus | Unknown | Undefined

text \<open>A \<^verbatim>\<open>Date\<close> is its time value, the milliseconds since the Unix epoch.\<close>

datatype date = Date int

record TransactionItem =
  signature :: string
  time :: date
  status :: status_value
  err :: "string option"

subsection \<open>What the collaborators hand over\<close>

text \<open>
  An entry of \<^verbatim>\<open>getParsedTokenAccountsByOwner(...).value\<close>: the account's address, the
  lamports the account itself holds (\<^verbatim>\<open>account.lamports\<close>) and the token amount of its
  parsed data (\<^verbatim>\<open>account.data.parsed.info.tokenAmount\<close>). Lamports are an unsigned
  count on chain.
\<close>

record TokenAccount =
  pubkey :: pubkey
  lamports :: nat
  tokenAmount :: nat

record TokenMetadata =
  md_name :: string
  md_symbol :: string

text \<open>
  An entry of \<^verbatim>\<open>getSignaturesForAddress\<close>: \<^verbatim>\<open>blockTime\<close> is a number of seconds,
  \<^verbatim>\<open>null\<close> or absent, \<^verbatim>\<open>confirmationStatus\<close> is optional.
\<close>

record ConfirmedSignatureInfo =
  sig_signature :: string
  blockTime :: "int option"
  confirmationStatus :: "TransactionConfirmationStatus option"
  sig_err :: "string option"

record BlockhashWithExpiryBlockHeight =
  blockhash :: string
  lastValidBlockHeight :: nat

record ConfirmStrategy =
  cs_blockhash :: string
  cs_lastValidBlockHeight :: nat
  cs_signature :: string

record TransferParams =
  fromPubkey :: pubkey
  tr_lamports :: number
  toPubkey :: pubkey

type_synonym Transaction = "TransferParams list"

text \<open>
  \<^verbatim>\<open>useWallet()\<close>: \<^verbatim>\<open>publicKey\<close> is null while no wallet is connected,
  \<^verbatim>\<open>signMessage\<close> is undefined for a wallet that cannot sign messages. An awaited call
  yields \<open>Inr\<close> its value or \<open>Inl\<close> what it rejected with.
\<close>

record wallet =
  connected :: bool
  publicKey :: "pubkey option"
  signMessage :: "(bytes \<Rightarrow> error + bytes) option"
  sendTransaction :: "Transaction \<Rightarrow> error + string"

text \<open>\<^verbatim>\<open>useConnection().connection\<close>, the RPC client.\<close>

record connection =
  getBalance :: "pubkey \<Rightarrow> error + nat"
  requestAirdrop :: "pubkey \<Rightarrow> number \<Rightarrow> error + string"
  getLatestBlockhash :: "error + BlockhashWithExpiryBlockHeight"
  confirmTransaction :: "ConfirmStrategy \<Rightarrow> error + unit"
  getParsedTokenAccountsByOwner :: "pubkey \<Rightarrow> string \<Rightarrow> error + TokenAccount list"
  getSignaturesForAddress :: "pubkey \<Rightarrow> nat \<Rightarrow> error + ConfirmedSignatureInfo list"

text \<open>
  The functions of the language and of the imported libraries that the handlers call:
  \<^verbatim>\<open>Number(s)\<close>, \<^verbatim>\<open>new PublicKey(s)\<close>, \<^verbatim>\<open>publicKey.toBytes()\<close>,
  \<^verbatim>\<open>SystemProgram.transfer\<close>, \<^verbatim>\<open>new TextEncoder().encode\<close>,
  \<^verbatim>\<open>ed25519.verify\<close> and \<^verbatim>\<open>getTokenMetadata\<close> (which yields null for an account
  without metadata).
\<close>

record library =
  Number :: "string \<Rightarrow> number"
  PublicKey :: "string \<Rightarrow> error + pubkey"
  toBytes :: "pubkey \<Rightarrow> bytes"
  transfer :: "TransferParams \<Rightarrow> error + TransferParams"
  encode :: "string \<Rightarrow> bytes"
  verify :: "bytes \<Rightarrow> bytes \<Rightarrow> bytes \<Rightarrow> error + bool"
  getTokenMetadata :: "pubkey \<Rightarrow> error + TokenMetadata option"

subsection \<open>Observable effects\<close>

text \<open>
  Every call to a collaborator, every \<^verbatim>\<open>console.error\<close> and every \<^verbatim>\<open>alert\<close> is
  recorded, in the order the handler issues it. The \<^verbatim>\<open>console.log\<close> diagnostics are
  not recorded.
\<close>

datatype event =
    ConsoleError string error
  | Alert string
  | GetBalance pubkey
  | RequestAirdrop pubkey number
  | GetLatestBlockhash
  | ConfirmTransaction ConfirmStrategy
  | SignMessage bytes
  | Verify bytes bytes bytes
  | NewPublicKey string
  | SendTransaction Transaction
  | GetParsedTokenAccountsByOwner pubkey string
  | GetTokenMetadata pubkey
  | GetSignaturesForAddress pubkey nat

text \<open>
  The \<^verbatim>\<open>useState\<close> cells both versions declare, with the record of effects; each version
  extends them with its own cells.
\<close>

record state =
  balance :: number
  airdropAmount :: string
  lamportsToTransfer :: string
  userTokens :: "Token list"
  transactions :: "TransactionItem list"
  effects :: "event list"

definition emit :: "event \<Rightarrow> 'a state_scheme \<Rightarrow> 'a state_scheme" where
  "emit e s = s\<lparr>effects := effects s @ [e]\<rparr>"


section \<open>Handlers that are the same in both versions\<close>

subsection \<open>Token holdings\<close>

text \<open>\<^verbatim>\<open>x || d\<close> where \<open>x\<close> is a string or undefined: the empty string is falsy too.\<close>

fun or_string :: "string option \<Rightarrow> string \<Rightarrow> string" where
  "or_string None d = d"
| "or_string (Some x) d = (if x = [] then d else x)"

text \<open>
  The callback mapped over \<^verbatim>\<open>accounts.value\<close>: a holding, or null when
  \<^verbatim>\<open>getTokenMetadata\<close> throws.
\<close>

definition tokenPromise :: "library \<Rightarrow> TokenAccount \<Rightarrow> Token option" where
  "tokenPromise l tokenAccount =
     (case getTokenMetadata l (pubkey tokenAccount) of
        Inl e \<Rightarrow> None
      | Inr metadata \<Rightarrow>
          Some \<lparr> name = or_string (map_option md_name metadata) ''Unknown Token'',
                 pubKey = pubkey tokenAccount,
                 Token.balance = Finite (real (lamports tokenAccount)),
                 symbol = or_string (map_option md_symbol metadata) ''UNK'' \<rparr>)"

text \<open>\<^verbatim>\<open>results.filter((t) => t !== null)\<close>\<close>

fun filter_nonnull :: "'a option list \<Rightarrow> 'a list" where
  "filter_nonnull [] = []"
| "filter_nonnull (None # ts) = filter_nonnull ts"
| "filter_nonnull (Some t # ts) = t # filter_nonnull ts"

definition fetchTokens :: "wallet \<Rightarrow> connection \<Rightarrow> library \<Rightarrow> 'a state_scheme \<Rightarrow> 'a state_scheme" where
  "fetchTokens w c l s =
     (case publicKey w of
        None \<Rightarrow> s
      | Some pk \<Rightarrow>
          (let s1 = emit (GetParsedTokenAccountsByOwner pk TOKEN_2022_PROGRAM_ID) s in
           case getParsedTokenAccountsByOwner c pk TOKEN_2022_PROGRAM_ID of
             Inl e \<Rightarrow> emit (ConsoleError ''Token fetch failed'' e) s1
           | Inr accounts \<Rightarrow>
               (let s2 = s1\<lparr>effects := effects s1 @ map (\<lambda>a. GetTokenMetadata (pubkey a)) accounts\<rparr>;
                    results = map (tokenPromise l) accounts
                in s2\<lparr>userTokens := filter_nonnull results\<rparr>)))"

subsection \<open>Transaction history\<close>

text \<open>\<^verbatim>\<open>tx.blockTime || 0\<close>: null, undefined and 0 all give 0.\<close>

fun or_zero :: "int option \<Rightarrow> int" where
  "or_zero None = 0"
| "or_zero (Some t) = (if t = 0 then 0 else t)"

text \<open>
  \<^verbatim>\<open>tx.confirmationStatus!\<close>: the non-null assertion is erased when the file is compiled,
  an absent status stays \<^verbatim>\<open>undefined\<close>.
\<close>

fun non_null_assertion :: "TransactionConfirmationStatus option \<Rightarrow> status_value" where
  "non_null_assertion None = Undefined"
| "non_null_assertion (Some st) = Status st"

definition formatted :: "ConfirmedSignatureInfo \<Rightarrow> TransactionItem" where
  "formatted tx =
     \<lparr> signature = sig_signature tx,
       time = Date (or_zero (blockTime tx) * 1000),
       status = non_null_assertion (confirmationStatus tx),
       err = sig_err tx \<rparr>"

text \<open>The two versions differ in the limit they pass only: 10 and 20.\<close>

definition fetchHistory :: "nat \<Rightarrow> wallet \<Rightarrow> connection \<Rightarrow> 'a state_scheme \<Rightarrow> 'a state_scheme" where
  "fetchHistory limit w c s =
     (if \<not> connected w then s
      else case publicKey w of
        None \<Rightarrow> s
      | Some pk \<Rightarrow>
          (let s1 = emit (GetSignaturesForAddress pk limit) s in
           case getSignaturesForAddress c pk limit of
             Inl e \<Rightarrow> emit (ConsoleError ''History fetch failed'' e) s1
           | Inr signatures \<Rightarrow> s1\<lparr>transactions := map formatted signatures\<rparr>))"

definition handleFetchHistory :: "wallet \<Rightarrow> connection \<Rightarrow> 'a state_scheme \<Rightarrow> 'a state_scheme" where
  "handleFetchHistory = fetchHistory 10"

definition new_handleFetchHistory :: "wallet \<Rightarrow> connection \<Rightarrow> 'a state_scheme \<Rightarrow> 'a state_scheme" where
  "new_handleFetchHistory = fetchHistory 20"

section \<open>The mounted component, \<^verbatim>\<open>App.tsx\<close>\<close>

record app_state = state +
  receiverAddress :: string
  isLoadingBalance :: bool
  isAirdropping :: bool
  isSending :: bool

definition handleShowBalance :: "wallet \<Rightarrow> connection \<Rightarrow> 'a app_state_scheme \<Rightarrow> 'a app_state_scheme" where
  "handleShowBalance w c s =
     (case publicKey w of
        None \<Rightarrow> s
      | Some pk \<Rightarrow>
          (let s1 = emit (GetBalance pk) (s\<lparr>isLoadingBalance := True\<rparr>);
               s2 = (case getBalance c pk of
                       Inr raw \<Rightarrow> s1\<lparr>balance := Finite (real raw / LAMPORTS_PER_SOL)\<rparr>
                     | Inl e \<Rightarrow> emit (ConsoleError ''Error fetching balance:'' e) s1)
           in s2\<lparr>isLoadingBalance := False\<rparr>))"

text \<open>The \<^verbatim>\<open>catch\<close> block of \<^verbatim>\<open>handleAirdrop\<close>.\<close>

definition airdrop_catch :: "error \<Rightarrow> 'a app_state_scheme \<Rightarrow> 'a app_state_scheme" where
  "airdrop_catch e s = emit (Alert ''Airdrop failed'') (emit (ConsoleError ''Airdrop failed:'' e) s)"

definition handleAirdrop :: "wallet \<Rightarrow> connection \<Rightarrow> library \<Rightarrow> 'a app_state_scheme \<Rightarrow> 'a app_state_scheme" where
  "handleAirdrop w c l s =
     (case publicKey w of
        None \<Rightarrow> s
      | Some pk \<Rightarrow>
          if airdropAmount s = [] then s
          else
            (let amount = times_number (Number l (airdropAmount s)) LAMPORTS_PER_SOL;
                 s1 = emit (RequestAirdrop pk amount) (s\<lparr>isAirdropping := True\<rparr>);
                 s2 = (case requestAirdrop c pk amount of
                         Inl e \<Rightarrow> airdrop_catch e s1
                       | Inr sg \<Rightarrow>
                           (let s3 = emit GetLatestBlockhash s1 in
                            case getLatestBlockhash c of
                              Inl e \<Rightarrow> airdrop_catch e s3
                            | Inr latestBlockHash \<Rightarrow>
                                (let strategy = \<lparr> cs_blockhash = blockhash latestBlockHash,
                                                  cs_lastValidBlockHeight = lastValidBlockHeight latestBlockHash,
                                                  cs_signature = sg \<rparr>;
                                     s4 = emit (ConfirmTransaction strategy) s3
                                 in case confirmTransaction c strategy of
                                      Inl e \<Rightarrow> airdrop_catch e s4
                                    | Inr u \<Rightarrow> emit (Alert ''Airdrop successful!'') (handleShowBalance w c s4))))
             in s2\<lparr>isAirdropping := False, airdropAmount := []\<rparr>))"


text \<open>The \<^verbatim>\<open>catch\<close> block of \<^verbatim>\<open>handleSignMessage\<close>.\<close>

definition sign_catch :: "error \<Rightarrow> 'a state_scheme \<Rightarrow> 'a state_scheme" where
  "sign_catch e s = emit (Alert ''Sign message failed'') (emit (ConsoleError ''Sign message failed:'' e) s)"

definition handleSignMessage :: "wallet \<Rightarrow> library \<Rightarrow> 'a state_scheme \<Rightarrow> 'a state_scheme" where
  "handleSignMessage w l s =
     (case publicKey w of
        None \<Rightarrow> sign_catch (Error ''Wallet not connected or invalid'') s
      | Some pk \<Rightarrow>
          (case signMessage w of
             None \<Rightarrow> sign_catch (Error ''Wallet not connected or invalid'') s
           | Some sign \<Rightarrow>
               (let encodedMessage = encode l ''Verify your account by signing this message'';
                    s1 = emit (SignMessage encodedMessage) s
                in case sign encodedMessage of
                     Inl e \<Rightarrow> sign_catch e s1
                   | Inr sg \<Rightarrow>
                       (let s2 = emit (Verify sg encodedMessage (toBytes l pk)) s1
                        in case verify l sg encodedMessage (toBytes l pk) of
                             Inl e \<Rightarrow> sign_catch e s2
                           | Inr ok \<Rightarrow>
                               if \<not> ok then sign_catch (Error ''Invalid signature!'') s2
                               else emit (Alert ''Message signed and verified successfully!'') s2))))"

text \<open>
  The \<^verbatim>\<open>try\<close> block of \<^verbatim>\<open>handleSendTokens\<close>: the state it reaches, with the value
  thrown if it was left by a throw. The two refreshes at its end are not awaited; each
  writes cells of its own, so they are run one after the other here.
\<close>

definition send_try :: "wallet \<Rightarrow> connection \<Rightarrow> library \<Rightarrow> 'a app_state_scheme \<Rightarrow> 'a app_state_scheme \<times> error option" where
  "send_try w c l s =
     (if \<not> connected w then (s, Some (Error ''Wallet disconnected''))
      else case publicKey w of
        None \<Rightarrow> (s, Some (Error ''Wallet disconnected''))
      | Some pk \<Rightarrow>
          (let s1 = emit (NewPublicKey (receiverAddress s)) (s\<lparr>isSending := True\<rparr>)
           in case PublicKey l (receiverAddress s) of
                Inl e \<Rightarrow> (s1, Some e)
              | Inr to \<Rightarrow>
                  (case transfer l \<lparr> fromPubkey = pk,
                                     tr_lamports = times_number (Number l (lamportsToTransfer s)) LAMPORTS_PER_SOL,
                                     toPubkey = to \<rparr> of
                     Inl e \<Rightarrow> (s1, Some e)
                   | Inr instruction \<Rightarrow>
                       (let transaction = [instruction];
                            s2 = emit (SendTransaction transaction) s1
                        in case sendTransaction w transaction of
                             Inl e \<Rightarrow> (s2, Some e)
                           | Inr sg \<Rightarrow>
                               (let s3 = emit GetLatestBlockhash s2
                                in case getLatestBlockhash c of
                                     Inl e \<Rightarrow> (s3, Some e)
                                   | Inr latestBlockHash \<Rightarrow>
                                       (let strategy = \<lparr> cs_blockhash = blockhash latestBlockHash,
                                                         cs_lastValidBlockHeight = lastValidBlockHeight latestBlockHash,
                                                         cs_signature = sg \<rparr>;
                                            s4 = emit (ConfirmTransaction strategy) s3
                                        in case confirmTransaction c strategy of
                                             Inl e \<Rightarrow> (s4, Some e)
                                           | Inr u \<Rightarrow>
                                               (handleFetchHistory w c
                                                  (handleShowBalance w c
                                                     (emit (Alert ''Transaction successful!'') s4)),
                                                None)))))))"

definition handleSendTokens :: "wallet \<Rightarrow> connection \<Rightarrow> library \<Rightarrow> 'a app_state_scheme \<Rightarrow> 'a app_state_scheme" where
  "handleSendTokens w c l s =
     (case send_try w c l s of
        (s', None) \<Rightarrow> s'\<lparr>isSending := False\<rparr>
      | (s', Some e) \<Rightarrow>
          (emit (Alert ''Transaction failed'') (emit (ConsoleError ''Send failed:'' e) s'))
            \<lparr>isSending := False\<rparr>)"

text \<open>
  The effect that runs at mount and whenever \<^verbatim>\<open>wallet.connected\<close> or the connection
  changes. Its three refreshes are not awaited and write different cells; they are run one
  after the other.
\<close>

definition useEffect :: "wallet \<Rightarrow> connection \<Rightarrow> library \<Rightarrow> 'a app_state_scheme \<Rightarrow> 'a app_state_scheme" where
  "useEffect w c l s =
     (if connected w
      then handleFetchHistory w c (fetchTokens w c l (handleShowBalance w c s))
      else s\<lparr>balance := Finite 0, userTokens := [], transactions := []\<rparr>)"

section \<open>The other version, \<^verbatim>\<open>newApp.tsx\<close>\<close>

record new_state = state +
  reciverAddress :: string
  isBalanceGet :: bool
  isFeatchingBalance :: bool
  isAirdroping :: bool

definition new_balance_catch :: "error \<Rightarrow> 'a new_state_scheme \<Rightarrow> 'a new_state_scheme" where
  "new_balance_catch e s =
     emit (Alert ''Error while featching balance'') (emit (ConsoleError ''Error while featching balance: '' e) s)"

definition new_handleShowBalance :: "wallet \<Rightarrow> connection \<Rightarrow> 'a new_state_scheme \<Rightarrow> 'a new_state_scheme" where
  "new_handleShowBalance w c s =
     (let s1 = s\<lparr>isBalanceGet := True, isFeatchingBalance := True\<rparr>;
          s2 = (case publicKey w of
                  None \<Rightarrow> new_balance_catch (Error ''Wallet not connected!'') s1
                | Some pk \<Rightarrow>
                    (let s3 = emit (GetBalance pk) s1
                     in case getBalance c pk of
                          Inl e \<Rightarrow> new_balance_catch e s3
                        | Inr raw \<Rightarrow> s3\<lparr>balance := Finite (real raw)\<rparr>))
      in s2\<lparr>isFeatchingBalance := False\<rparr>)"

definition new_airdrop_catch :: "error \<Rightarrow> 'a new_state_scheme \<Rightarrow> 'a new_state_scheme" where
  "new_airdrop_catch e s =
     emit (Alert ''Error while airdroping'') (emit (ConsoleError ''Error while airdroping: '' e) s)"

definition new_handleAirdrop :: "wallet \<Rightarrow> connection \<Rightarrow> library \<Rightarrow> 'a new_state_scheme \<Rightarrow> 'a new_state_scheme" where
  "new_handleAirdrop w c l s =
     (let s1 = s\<lparr>isAirdroping := True\<rparr>;
          s2 = (case publicKey w of
                  None \<Rightarrow> new_airdrop_catch (Error ''Wallet not connected!'') s1
                | Some pk \<Rightarrow>
                    (let amount = times_number (Number l (airdropAmount s)) LAMPORTS_PER_SOL;
                         s3 = emit (RequestAirdrop pk amount) s1
                     in case requestAirdrop c pk amount of
                          Inl e \<Rightarrow> new_airdrop_catch e s3
                        | Inr sg \<Rightarrow> s3))
      in s2\<lparr>isAirdroping := False\<rparr>)"

definition new_sign_catch :: "error \<Rightarrow> 'a state_scheme \<Rightarrow> 'a state_scheme" where
  "new_sign_catch e s =
     emit (Alert ''Error while signing message'') (emit (ConsoleError ''Error while signing message: '' e) s)"

definition new_handleSignMessage :: "wallet \<Rightarrow> library \<Rightarrow> 'a state_scheme \<Rightarrow> 'a state_scheme" where
  "new_handleSignMessage w l s =
     (case publicKey w of
        None \<Rightarrow> new_sign_catch (Error ''Wallet not connected!'') s
      | Some pk \<Rightarrow>
          (case signMessage w of
             None \<Rightarrow> new_sign_catch (Error ''sign message not supported'') s
           | Some sign \<Rightarrow>
               (let EncodedMessge = encode l ''Verify your account by sigining message'';
                    s1 = emit (SignMessage EncodedMessge) s
                in case sign EncodedMessge of
                     Inl e \<Rightarrow> new_sign_catch e s1
                   | Inr sg \<Rightarrow>
                       (let s2 = emit (Verify sg EncodedMessge (toBytes l pk)) s1
                        in case verify l sg EncodedMessge (toBytes l pk) of
                             Inl e \<Rightarrow> new_sign_catch e s2
                           | Inr ok \<Rightarrow>
                               if \<not> ok then new_sign_catch (Error ''Message signature invalid!'') s2
                               else emit (Alert ''Sign Message successfuly'') s2))))"

text \<open>The \<^verbatim>\<open>try\<close> block of this version's \<^verbatim>\<open>handleSendTokens\<close>.\<close>

definition new_send_try :: "wallet \<Rightarrow> library \<Rightarrow> 'a new_state_scheme \<Rightarrow> 'a new_state_scheme \<times> error option" where
  "new_send_try w l s =
     (if \<not> connected w then (s, Some (Error ''Wallet not connected!''))
      else case publicKey w of
        None \<Rightarrow> (s, Some (Error ''Wallet not connected!''))
      | Some pk \<Rightarrow>
          if ge_number (Number l (lamportsToTransfer s)) (balance s)
          then (s, Some (Error ''Insifficent balance to transfer''))
          else
            (let s1 = emit (NewPublicKey (reciverAddress s)) s
             in case PublicKey l (reciverAddress s) of
                  Inl e \<Rightarrow> (s1, Some e)
                | Inr to \<Rightarrow>
                    (case transfer l \<lparr> fromPubkey = pk,
                                       tr_lamports = times_number (Number l (lamportsToTransfer s)) LAMPORTS_PER_SOL,
                                       toPubkey = to \<rparr> of
                       Inl e \<Rightarrow> (s1, Some e)
                     | Inr instruction \<Rightarrow>
                         (let transation = [instruction];
                              s2 = emit (SendTransaction transation) s1
                          in case sendTransaction w transation of
                               Inl e \<Rightarrow> (s2, Some e)
                             | Inr sg \<Rightarrow> (emit (Alert ''Transation sended!!'') s2, None)))))"

definition new_handleSendTokens :: "wallet \<Rightarrow> library \<Rightarrow> 'a new_state_scheme \<Rightarrow> 'a new_state_scheme" where
  "new_handleSendTokens w l s =
     (case new_send_try w l s of
        (s', None) \<Rightarrow> s'
      | (s', Some e) \<Rightarrow> emit (ConsoleError ''Error while sending transation: '' e) s')"


section \<open>Example collaborators and states\<close>

text \<open>
  Concrete inputs on which the handlers are run below. The wallet of Alice signs by
  reversing the message, and the stand-in for \<^verbatim>\<open>ed25519.verify\<close> accepts exactly such
  a signature. \<open>demo_Number\<close> reads the few strings the examples enter. The stand-in
  for \<^verbatim>\<open>new PublicKey\<close> accepts the one address the examples send to, the base-58
  text of 32 zero bytes, and throws on any other text, as the constructor does on a text
  that is not the base-58 form of 32 bytes.
\<close>

definition demo_recipient :: string where
  "demo_recipient = ''11111111111111111111111111111111''"

definition demo_Number :: "string \<Rightarrow> number" where
  "demo_Number x =
     (if x = [] then Finite 0
      else if x = ''1'' then Finite 1
      else if x = ''5'' then Finite 5
      else NaN)"

definition demo_library :: library where
  "demo_library =
     \<lparr> Number = demo_Number,
       PublicKey = (\<lambda>x. if x = demo_recipient then Inr x else Inl (Thrown ''Invalid public key input'')),
       toBytes = map of_char,
       transfer = Inr,
       encode = map of_char,
       verify = (\<lambda>sg msg pk. Inr (sg = rev msg)),
       getTokenMetadata =
         (\<lambda>pk. if pk = ''acc2'' then Inl (Thrown ''TokenInvalidAccountOwnerError'')
               else if pk = ''acc3'' then Inr None
               else Inr (Some \<lparr> md_name = ''Gold'', md_symbol = ''GLD'' \<rparr>)) \<rparr>"

definition demo_wallet :: wallet where
  "demo_wallet =
     \<lparr> connected = True,
       publicKey = Some ''Alice'',
       signMessage = Some (\<lambda>m. Inr (rev m)),
       sendTransaction = (\<lambda>t. Inr ''sig-send'') \<rparr>"

text \<open>A wallet whose user declines every signing request.\<close>

definition declining_wallet :: wallet where
  "declining_wallet = demo_wallet\<lparr> signMessage := Some (\<lambda>m. Inl (Thrown ''User rejected the request'')) \<rparr>"

text \<open>A wallet whose submission fails, as it does when the account cannot pay.\<close>

definition rejecting_wallet :: wallet where
  "rejecting_wallet =
     demo_wallet\<lparr> sendTransaction := (\<lambda>t. Inl (Thrown ''Transaction simulation failed'')) \<rparr>"

definition disconnected_wallet :: wallet where
  "disconnected_wallet = demo_wallet\<lparr> connected := False, publicKey := None \<rparr>"

definition demo_accounts :: "TokenAccount list" where
  "demo_accounts =
     [ \<lparr> pubkey = ''acc1'', lamports = 2039280, tokenAmount = 42 \<rparr>,
       \<lparr> pubkey = ''acc2'', lamports = 2039280, tokenAmount = 7 \<rparr>,
       \<lparr> pubkey = ''acc3'', lamports = 2074080, tokenAmount = 0 \<rparr> ]"

definition demo_signatures :: "ConfirmedSignatureInfo list" where
  "demo_signatures =
     [ \<lparr> sig_signature = ''sig-b'', blockTime = Some 1700000000,
         confirmationStatus = Some Finalized, sig_err = None \<rparr>,
       \<lparr> sig_signature = ''sig-a'', blockTime = None,
         confirmationStatus = None, sig_err = None \<rparr> ]"

definition demo_connection :: connection where
  "demo_connection =
     \<lparr> getBalance = (\<lambda>pk. Inr 2500000000),
       requestAirdrop = (\<lambda>pk n. Inr ''sig-airdrop''),
       getLatestBlockhash = Inr \<lparr> blockhash = ''hash'', lastValidBlockHeight = 100 \<rparr>,
       confirmTransaction = (\<lambda>strategy. Inr ()),
       getParsedTokenAccountsByOwner = (\<lambda>pk program. Inr demo_accounts),
       getSignaturesForAddress = (\<lambda>pk limit. Inr (take limit demo_signatures)) \<rparr>"

text \<open>An RPC client every call of which rejects.\<close>

definition failing_connection :: connection where
  "failing_connection =
     \<lparr> getBalance = (\<lambda>pk. Inl (Thrown ''fetch failed'')),
       requestAirdrop = (\<lambda>pk n. Inl (Thrown ''fetch failed'')),
       getLatestBlockhash = Inl (Thrown ''fetch failed''),
       confirmTransaction = (\<lambda>strategy. Inl (Thrown ''fetch failed'')),
       getParsedTokenAccountsByOwner = (\<lambda>pk program. Inl (Thrown ''fetch failed'')),
       getSignaturesForAddress = (\<lambda>pk limit. Inl (Thrown ''fetch failed'')) \<rparr>"

definition old_token :: Token where
  "old_token = \<lparr> name = ''Old'', pubKey = ''acc0'', Token.balance = Finite 1, symbol = ''OLD'' \<rparr>"

definition old_item :: TransactionItem where
  "old_item = \<lparr> signature = ''sig-0'', time = Date 5000, status = Status Confirmed, err = None \<rparr>"

text \<open>A state of \<^verbatim>\<open>App.tsx\<close>: 3.5 SOL cached, 5 entered for the transfer, 1 for the airdrop.\<close>

definition demo_state :: app_state where
  "demo_state =
     \<lparr> balance = Finite (7 / 2), airdropAmount = ''1'', lamportsToTransfer = ''5'',
       userTokens = [old_token], transactions = [old_item], effects = [],
       receiverAddress = demo_recipient, isLoadingBalance = False, isAirdropping = False,
       isSending = False \<rparr>"

text \<open>A state of \<^verbatim>\<open>newApp.tsx\<close>: 3 cached, 5 entered for the transfer, 1 for the airdrop.\<close>

definition demo_new_state :: new_state where
  "demo_new_state =
     \<lparr> balance = Finite 3, airdropAmount = ''1'', lamportsToTransfer = ''5'',
       userTokens = [old_token], transactions = [old_item], effects = [],
       reciverAddress = demo_recipient, isBalanceGet = False, isFeatchingBalance = False,
       isAirdroping = False \<rparr>"


section \<open>Token holdings\<close>

lemma length_filter_nonnull_tokenPromise:
  "length (filter_nonnull (map (tokenPromise l) accounts)) =
     length accounts - length (filter (\<lambda>a. isl (getTokenMetadata l (pubkey a))) accounts)"
proof (induction accounts)
  case Nil
  show ?case by simp
next
  case (Cons a as)
  have "length (filter (\<lambda>a. isl (getTokenMetadata l (pubkey a))) as) \<le> length as"
    by (rule length_filter_le)
  with Cons show ?case
    by (cases "getTokenMetadata l (pubkey a)") (auto simp: tokenPromise_def Suc_diff_le)
qed

lemma pubKey_filter_nonnull_tokenPromise:
  "map pubKey (filter_nonnull (map (tokenPromise l) accounts)) =
     map pubkey (filter (\<lambda>a. \<not> isl (getTokenMetadata l (pubkey a))) accounts)"
  by (induction accounts) (auto simp: tokenPromise_def split: sum.splits)

lemma balance_filter_nonnull_tokenPromise:
  "map Token.balance (filter_nonnull (map (tokenPromise l) accounts)) =
     map (\<lambda>a. Finite (real (lamports a))) (filter (\<lambda>a. \<not> isl (getTokenMetadata l (pubkey a))) accounts)"
  by (induction accounts) (auto simp: tokenPromise_def split: sum.splits)

lemma fetchTokens_userTokens:
  assumes "publicKey w = Some pk"
    and "getParsedTokenAccountsByOwner c pk TOKEN_2022_PROGRAM_ID = Inr accounts"
  shows "userTokens (fetchTokens w c l s) = filter_nonnull (map (tokenPromise l) accounts)"
  using assms by (simp add: fetchTokens_def Let_def emit_def)

text \<open>
  Claim C4. When the wallet has a public key and the enumeration returns \<open>accounts\<close>, of
  which N there are, and \<^verbatim>\<open>getTokenMetadata\<close> throws for K of them, the token list the
  handler stores has N - K entries, and they are, in order, the accounts for which it did
  not throw: no account whose metadata resolution failed has an entry.
\<close>

theorem fetchTokens_omits_failed:
  assumes "publicKey w = Some pk"
    and "getParsedTokenAccountsByOwner c pk TOKEN_2022_PROGRAM_ID = Inr accounts"
  shows "length (userTokens (fetchTokens w c l s)) =
           length accounts - length (filter (\<lambda>a. isl (getTokenMetadata l (pubkey a))) accounts)
         \<and> map pubKey (userTokens (fetchTokens w c l s)) =
           map pubkey (filter (\<lambda>a. \<not> isl (getTokenMetadata l (pubkey a))) accounts)"
proof -
  have "userTokens (fetchTokens w c l s) = filter_nonnull (map (tokenPromise l) accounts)"
    using assms by (rule fetchTokens_userTokens)
  then show ?thesis
    by (simp only: length_filter_nonnull_tokenPromise pubKey_filter_nonnull_tokenPromise simp_thms)
qed

text \<open>Three accounts, the second of which has no resolvable metadata: two holdings.\<close>

theorem fetchTokens_omits_failed_witness:
  "length (userTokens (fetchTokens demo_wallet demo_connection demo_library demo_state)) = 2
   \<and> map pubKey (userTokens (fetchTokens demo_wallet demo_connection demo_library demo_state)) = [''acc1'', ''acc3'']"
  using fetchTokens_omits_failed [of demo_wallet "''Alice''" demo_connection demo_accounts demo_library demo_state]
  by (simp add: demo_wallet_def demo_connection_def demo_library_def demo_accounts_def)

text \<open>
  Claim C10. The \<^verbatim>\<open>balance\<close> of every holding the enumeration stores is the lamports
  of its account (\<^verbatim>\<open>tokenAccount.account.lamports\<close>); the token amount of the account
  has no part in the holding.
\<close>

theorem fetchTokens_balance_is_lamports:
  assumes "publicKey w = Some pk"
    and "getParsedTokenAccountsByOwner c pk TOKEN_2022_PROGRAM_ID = Inr accounts"
  shows "map Token.balance (userTokens (fetchTokens w c l s)) =
           map (\<lambda>a. Finite (real (lamports a))) (filter (\<lambda>a. \<not> isl (getTokenMetadata l (pubkey a))) accounts)
         \<and> tokenPromise l (a\<lparr>tokenAmount := n\<rparr>) = tokenPromise l a"
proof -
  have "userTokens (fetchTokens w c l s) = filter_nonnull (map (tokenPromise l) accounts)"
    using assms by (rule fetchTokens_userTokens)
  then have "map Token.balance (userTokens (fetchTokens w c l s)) =
           map (\<lambda>a. Finite (real (lamports a))) (filter (\<lambda>a. \<not> isl (getTokenMetadata l (pubkey a))) accounts)"
    by (simp only: balance_filter_nonnull_tokenPromise)
  moreover have "tokenPromise l (a\<lparr>tokenAmount := n\<rparr>) = tokenPromise l a"
    by (simp add: tokenPromise_def split: sum.split)
  ultimately show ?thesis by simp
qed

text \<open>The holdings of the example carry 2039280 and 2074080 lamports, not 42 and 0 tokens.\<close>

theorem fetchTokens_balance_is_lamports_witness:
  "map Token.balance (userTokens (fetchTokens demo_wallet demo_connection demo_library demo_state))
     = [Finite 2039280, Finite 2074080]"
  using fetchTokens_balance_is_lamports [of demo_wallet "''Alice''" demo_connection demo_accounts demo_library demo_state]
  by (simp add: demo_wallet_def demo_connection_def demo_library_def demo_accounts_def)

section \<open>The connection effect\<close>

text \<open>
  Claim C5. When the effect runs with a wallet that is not connected, it sets the balance
  to 0, the token list to the empty list and the transaction list to the empty list,
  whatever these cells held before.
\<close>

theorem useEffect_disconnected:
  "\<not> connected w \<Longrightarrow>
     balance (useEffect w c l s) = Finite 0
     \<and> userTokens (useEffect w c l s) = []
     \<and> transactions (useEffect w c l s) = []"
  by (simp add: useEffect_def)

text \<open>From a state whose three caches are filled.\<close>

theorem useEffect_disconnected_witness:
  "\<not> connected disconnected_wallet
   \<and> balance (useEffect disconnected_wallet demo_connection demo_library demo_state) = Finite 0
   \<and> userTokens (useEffect disconnected_wallet demo_connection demo_library demo_state) = []
   \<and> transactions (useEffect disconnected_wallet demo_connection demo_library demo_state) = []
   \<and> balance demo_state \<noteq> Finite 0 \<and> userTokens demo_state \<noteq> [] \<and> transactions demo_state \<noteq> []"
  using useEffect_disconnected [of disconnected_wallet demo_connection demo_library demo_state]
  by (simp add: disconnected_wallet_def demo_wallet_def demo_state_def)


section \<open>Balance refresh\<close>

text \<open>
  Claim C2, as amended. In \<^verbatim>\<open>App.tsx\<close>, a balance refresh whose \<^verbatim>\<open>getBalance\<close>
  call returns \<open>raw\<close> lamports stores \<open>raw / LAMPORTS_PER_SOL\<close>, which is not negative.
\<close>

theorem handleShowBalance_scaled:
  assumes "publicKey w = Some pk" and "getBalance c pk = Inr raw"
  shows "balance (handleShowBalance w c s) = Finite (real raw / LAMPORTS_PER_SOL)
         \<and> 0 \<le> real raw / LAMPORTS_PER_SOL"
  using assms by (simp add: handleShowBalance_def Let_def emit_def LAMPORTS_PER_SOL_def)

text \<open>2500000000 lamports are stored as 2.5.\<close>

theorem handleShowBalance_scaled_witness:
  "balance (handleShowBalance demo_wallet demo_connection demo_state) = Finite (5 / 2)"
  using handleShowBalance_scaled [of demo_wallet "''Alice''" demo_connection 2500000000 demo_state]
  by (simp add: demo_wallet_def demo_connection_def LAMPORTS_PER_SOL_def)

text \<open>
  Claim C2, as stated, fails on \<^verbatim>\<open>newApp.tsx\<close>: its refresh stores the lamports
  themselves, 2500000000 and not 2.5.
\<close>

theorem new_handleShowBalance_unscaled:
  "getBalance demo_connection ''Alice'' = Inr 2500000000
   \<and> balance (new_handleShowBalance demo_wallet demo_connection demo_new_state) = Finite 2500000000
   \<and> balance (new_handleShowBalance demo_wallet demo_connection demo_new_state)
       \<noteq> Finite (real 2500000000 / LAMPORTS_PER_SOL)"
  by (simp add: new_handleShowBalance_def Let_def emit_def demo_wallet_def demo_connection_def
      LAMPORTS_PER_SOL_def)

section \<open>Failing calls\<close>

text \<open>
  Claim C6, as amended. When the call a refresh is built on rejects (\<^verbatim>\<open>getBalance\<close>
  in the balance refresh, \<^verbatim>\<open>getParsedTokenAccountsByOwner\<close> in the token enumeration,
  \<^verbatim>\<open>getSignaturesForAddress\<close> in the history fetch), the cell of that refresh keeps
  its value, and the handler has issued the call and logged the error, nothing more.
\<close>

theorem failed_call_keeps_cache:
  assumes "publicKey w = Some pk"
  shows "(getBalance c pk = Inl e \<longrightarrow>
            balance (handleShowBalance w c s) = balance s
            \<and> effects (handleShowBalance w c s) =
                effects s @ [GetBalance pk, ConsoleError ''Error fetching balance:'' e])
         \<and> (getParsedTokenAccountsByOwner c pk TOKEN_2022_PROGRAM_ID = Inl e \<longrightarrow>
            userTokens (fetchTokens w c l s) = userTokens s
            \<and> effects (fetchTokens w c l s) =
                effects s @ [GetParsedTokenAccountsByOwner pk TOKEN_2022_PROGRAM_ID,
                             ConsoleError ''Token fetch failed'' e])
         \<and> (connected w \<and> getSignaturesForAddress c pk 10 = Inl e \<longrightarrow>
            transactions (handleFetchHistory w c s) = transactions s
            \<and> effects (handleFetchHistory w c s) =
                effects s @ [GetSignaturesForAddress pk 10, ConsoleError ''History fetch failed'' e])"
  using assms
  by (simp add: handleShowBalance_def fetchTokens_def handleFetchHistory_def fetchHistory_def
      Let_def emit_def)

text \<open>With an RPC client that rejects every call, the three filled caches stay as they are.\<close>

theorem failed_call_keeps_cache_witness:
  "balance (handleShowBalance demo_wallet failing_connection demo_state) = balance demo_state
   \<and> userTokens (fetchTokens demo_wallet failing_connection demo_library demo_state) = userTokens demo_state
   \<and> transactions (handleFetchHistory demo_wallet failing_connection demo_state) = transactions demo_state"
  using failed_call_keeps_cache [of demo_wallet "''Alice''" failing_connection "Thrown ''fetch failed''"
      demo_state demo_library]
  by (simp add: demo_wallet_def failing_connection_def)

text \<open>
  Claim C6, as stated, fails for the metadata call of the token enumeration: when
  \<^verbatim>\<open>getTokenMetadata\<close> rejects for one account, the token list is replaced all the same,
  by the holdings of the other accounts.
\<close>

theorem failed_metadata_call_changes_tokens:
  "getTokenMetadata demo_library ''acc2'' = Inl (Thrown ''TokenInvalidAccountOwnerError'')
   \<and> GetTokenMetadata ''acc2'' \<in> set (effects (fetchTokens demo_wallet demo_connection demo_library demo_state))
   \<and> userTokens (fetchTokens demo_wallet demo_connection demo_library demo_state) \<noteq> userTokens demo_state"
  by (simp add: fetchTokens_def Let_def emit_def tokenPromise_def demo_wallet_def demo_connection_def
      demo_library_def demo_accounts_def demo_state_def old_token_def)

section \<open>Busy flags\<close>

text \<open>
  Claim C7. When a handler of \<^verbatim>\<open>App.tsx\<close> returns, its busy flag is off on every path
  that set it: the balance refresh and the airdrop leave their flag untouched when their
  guard returns at once, and clear it otherwise, whether the calls succeeded or not; the
  transfer always clears its flag. The two flags \<^verbatim>\<open>newApp.tsx\<close> sets and clears behave
  the same.
\<close>

theorem busy_flags_cleared:
  "isLoadingBalance (handleShowBalance w c s) = (if publicKey w = None then isLoadingBalance s else False)
   \<and> isAirdropping (handleAirdrop w c l s) =
       (if publicKey w = None \<or> airdropAmount s = [] then isAirdropping s else False)
   \<and> isSending (handleSendTokens w c l s) = False
   \<and> isFeatchingBalance (new_handleShowBalance w c t) = False
   \<and> isAirdroping (new_handleAirdrop w c l t) = False"
  by (simp add: handleShowBalance_def handleAirdrop_def handleSendTokens_def
      new_handleShowBalance_def new_handleAirdrop_def Let_def split: option.split prod.split)

text \<open>With every call failing, and with every call succeeding.\<close>

theorem busy_flags_cleared_witness:
  "isLoadingBalance (handleShowBalance demo_wallet failing_connection demo_state) = False
   \<and> isAirdropping (handleAirdrop demo_wallet failing_connection demo_library demo_state) = False
   \<and> isSending (handleSendTokens demo_wallet failing_connection demo_library demo_state) = False
   \<and> isSending (handleSendTokens demo_wallet demo_connection demo_library demo_state) = False
   \<and> isFeatchingBalance (new_handleShowBalance demo_wallet failing_connection demo_new_state) = False"
  using busy_flags_cleared [of demo_wallet failing_connection demo_state demo_library demo_new_state]
    busy_flags_cleared [of demo_wallet demo_connection demo_state demo_library demo_new_state]
  by (simp add: demo_wallet_def demo_state_def)

section \<open>Transfer\<close>

text \<open>
  The transfer of \<^verbatim>\<open>newApp.tsx\<close> compares the entered amount with the cached balance:
  with a connected wallet and an amount that is a number greater than or equal to the
  balance, it logs the error "Insifficent balance to transfer" and does nothing else.
\<close>

lemma new_handleSendTokens_insufficient:
  assumes "connected w" and "publicKey w = Some pk"
    and "ge_number (Number l (lamportsToTransfer s)) (balance s)"
  shows "new_handleSendTokens w l s =
           emit (ConsoleError ''Error while sending transation: '' (Error ''Insifficent balance to transfer'')) s"
  using assms by (simp add: new_handleSendTokens_def new_send_try_def)

text \<open>
  That comparison is of an amount in SOL with a balance this version caches in lamports:
  after its own refresh has cached 2500000000 lamports (2.5 SOL), a transfer of 5 passes
  the comparison and is handed to the wallet.
\<close>

lemma new_handleSendTokens_compares_units:
  "balance (new_handleShowBalance demo_wallet demo_connection demo_new_state) = Finite 2500000000
   \<and> effects (new_handleSendTokens rejecting_wallet demo_library
                (new_handleShowBalance demo_wallet demo_connection demo_new_state)) =
       [GetBalance ''Alice'',
        NewPublicKey demo_recipient,
        SendTransaction [\<lparr> fromPubkey = ''Alice'', tr_lamports = Finite 5000000000,
                           toPubkey = demo_recipient \<rparr>],
        ConsoleError ''Error while sending transation: '' (Thrown ''Transaction simulation failed'')]"
  by (simp add: new_handleSendTokens_def new_send_try_def new_handleShowBalance_def Let_def emit_def
      rejecting_wallet_def demo_wallet_def demo_connection_def demo_library_def demo_Number_def
      demo_new_state_def LAMPORTS_PER_SOL_def)

text \<open>
  The transfer of \<^verbatim>\<open>App.tsx\<close> makes no comparison: whatever the amount and the balance,
  with a connected wallet the first thing it does is to parse the recipient.
\<close>

lemma effects_send_try:
  assumes "connected w" and "publicKey w = Some pk"
  shows "\<exists>r. effects (fst (send_try w c l s)) = effects s @ NewPublicKey (receiverAddress s) # r"
proof -
  have refreshed: "\<exists>r. effects (handleFetchHistory w c (handleShowBalance w c s')) = effects s' @ r"
    for s' :: "'a app_state_scheme"
    by (simp add: handleFetchHistory_def fetchHistory_def handleShowBalance_def Let_def emit_def
        split: option.split sum.split)
  show ?thesis
  proof (cases "PublicKey l (receiverAddress s)")
    case (Inl e)
    with assms show ?thesis by (simp add: send_try_def Let_def emit_def)
  next
    case parsed: (Inr to)
    let ?params = "\<lparr> fromPubkey = pk,
                      tr_lamports = times_number (Number l (lamportsToTransfer s)) LAMPORTS_PER_SOL,
                      toPubkey = to \<rparr>"
    show ?thesis
    proof (cases "transfer l ?params")
      case (Inl e)
      with assms parsed show ?thesis by (simp add: send_try_def Let_def emit_def)
    next
      case built: (Inr instruction)
      show ?thesis
      proof (cases "sendTransaction w [instruction]")
        case (Inl e)
        with assms parsed built show ?thesis by (simp add: send_try_def Let_def emit_def)
      next
        case sent: (Inr sg)
        show ?thesis
        proof (cases "getLatestBlockhash c")
          case (Inl e)
          with assms parsed built sent show ?thesis by (simp add: send_try_def Let_def emit_def)
        next
          case fetched: (Inr latest)
          let ?strategy = "\<lparr> cs_blockhash = blockhash latest,
                             cs_lastValidBlockHeight = lastValidBlockHeight latest,
                             cs_signature = sg \<rparr>"
          show ?thesis
          proof (cases "confirmTransaction c ?strategy")
            case (Inl e)
            with assms parsed built sent fetched show ?thesis
              by (simp add: send_try_def Let_def emit_def)
          next
            case (Inr u)
            let ?s5 = "s\<lparr> isSending := True,
                           effects := effects s @
                             [NewPublicKey (receiverAddress s), SendTransaction [instruction],
                              GetLatestBlockhash, ConfirmTransaction ?strategy,
                              Alert ''Transaction successful!''] \<rparr>"
            obtain r where "effects (handleFetchHistory w c (handleShowBalance w c ?s5)) = effects ?s5 @ r"
              using refreshed [of ?s5] by blast
            with assms parsed built sent fetched Inr show ?thesis
              by (simp add: send_try_def Let_def emit_def)
          qed
        qed
      qed
    qed
  qed
qed

lemma handleSendTokens_parses_first:
  assumes "connected w" and "publicKey w = Some pk"
  shows "\<exists>r. effects (handleSendTokens w c l s) = effects s @ NewPublicKey (receiverAddress s) # r"
proof -
  obtain r where "effects (fst (send_try w c l s)) = effects s @ NewPublicKey (receiverAddress s) # r"
    using effects_send_try [OF assms] by blast
  then show ?thesis
    by (cases "send_try w c l s") (auto simp: handleSendTokens_def emit_def split: option.split)
qed

text \<open>
  Claim C1. The claim does not hold of the mounted component: with 3.5 cached and 5
  entered, the transfer of \<^verbatim>\<open>App.tsx\<close> does not reject locally. It parses the recipient
  and hands a transfer of 5000000000 lamports to the wallet; the failure it reports is the
  one the wallet answers with.
\<close>

theorem handleSendTokens_sends_beyond_balance:
  "ge_number (Number demo_library (lamportsToTransfer demo_state)) (balance demo_state)
   \<and> effects (handleSendTokens rejecting_wallet demo_connection demo_library demo_state) =
       [NewPublicKey demo_recipient,
        SendTransaction [\<lparr> fromPubkey = ''Alice'', tr_lamports = Finite 5000000000,
                           toPubkey = demo_recipient \<rparr>],
        ConsoleError ''Send failed:'' (Thrown ''Transaction simulation failed''),
        Alert ''Transaction failed'']"
  by (simp add: handleSendTokens_def send_try_def Let_def emit_def rejecting_wallet_def
      demo_wallet_def demo_library_def demo_Number_def demo_state_def LAMPORTS_PER_SOL_def)

section \<open>Airdrop\<close>

lemma effects_handleShowBalance:
  "\<exists>r. effects (handleShowBalance w c s) = effects s @ r"
  by (simp add: handleShowBalance_def Let_def emit_def split: option.split sum.split)

text \<open>
  Claim C8, as amended. In \<^verbatim>\<open>App.tsx\<close>, an airdrop with a public key and a non-empty
  amount always ends with the amount field cleared, and the first thing it does is to
  request the airdrop of amount times \<open>LAMPORTS_PER_SOL\<close>; when that request, the fetch of
  the latest blockhash and the confirmation all succeed, it has issued these three calls in
  this order, then run the balance refresh, then announced the success.
\<close>

theorem handleAirdrop_sequence:
  assumes "publicKey w = Some pk" and "airdropAmount s \<noteq> []"
  shows "airdropAmount (handleAirdrop w c l s) = []
     \<and> (\<exists>r. effects (handleAirdrop w c l s) =
              effects s @ RequestAirdrop pk (times_number (Number l (airdropAmount s)) LAMPORTS_PER_SOL) # r)
     \<and> (requestAirdrop c pk (times_number (Number l (airdropAmount s)) LAMPORTS_PER_SOL) = Inr sg
        \<and> getLatestBlockhash c = Inr latest
        \<and> confirmTransaction c \<lparr> cs_blockhash = blockhash latest,
                                  cs_lastValidBlockHeight = lastValidBlockHeight latest,
                                  cs_signature = sg \<rparr> = Inr u
        \<longrightarrow> handleAirdrop w c l s =
              (emit (Alert ''Airdrop successful!'')
                 (handleShowBalance w c
                    (s\<lparr> isAirdropping := True,
                        effects := effects s @
                          [RequestAirdrop pk (times_number (Number l (airdropAmount s)) LAMPORTS_PER_SOL),
                           GetLatestBlockhash,
                           ConfirmTransaction \<lparr> cs_blockhash = blockhash latest,
                                                cs_lastValidBlockHeight = lastValidBlockHeight latest,
                                                cs_signature = sg \<rparr>] \<rparr>)))
              \<lparr> isAirdropping := False, airdropAmount := [] \<rparr>)"
proof (intro conjI impI)
  show "airdropAmount (handleAirdrop w c l s) = []"
    using assms by (simp add: handleAirdrop_def Let_def)
next
  let ?amount = "times_number (Number l (airdropAmount s)) LAMPORTS_PER_SOL"
  show "\<exists>r. effects (handleAirdrop w c l s) = effects s @ RequestAirdrop pk ?amount # r"
  proof (cases "requestAirdrop c pk ?amount")
    case (Inl e)
    with assms show ?thesis
      by (simp add: handleAirdrop_def airdrop_catch_def Let_def emit_def)
  next
    case requested: (Inr sg')
    show ?thesis
    proof (cases "getLatestBlockhash c")
      case (Inl e)
      with assms requested show ?thesis
        by (simp add: handleAirdrop_def airdrop_catch_def Let_def emit_def)
    next
      case fetched: (Inr latest')
      let ?strategy = "\<lparr> cs_blockhash = blockhash latest',
                         cs_lastValidBlockHeight = lastValidBlockHeight latest',
                         cs_signature = sg' \<rparr>"
      show ?thesis
      proof (cases "confirmTransaction c ?strategy")
        case (Inl e)
        with assms requested fetched show ?thesis
          by (simp add: handleAirdrop_def airdrop_catch_def Let_def emit_def)
      next
        case (Inr u')
        let ?s4 = "s\<lparr> isAirdropping := True,
                         effects := effects s @ [RequestAirdrop pk ?amount, GetLatestBlockhash,
                                                 ConfirmTransaction ?strategy] \<rparr>"
        obtain r where "effects (handleShowBalance w c ?s4) = effects ?s4 @ r"
          using effects_handleShowBalance [of w c ?s4] by blast
        with assms requested fetched Inr show ?thesis
          by (simp add: handleAirdrop_def Let_def emit_def)
      qed
    qed
  qed
next
  let ?amount = "times_number (Number l (airdropAmount s)) LAMPORTS_PER_SOL"
  let ?strategy = "\<lparr> cs_blockhash = blockhash latest,
                     cs_lastValidBlockHeight = lastValidBlockHeight latest,
                     cs_signature = sg \<rparr>"
  assume "requestAirdrop c pk ?amount = Inr sg \<and> getLatestBlockhash c = Inr latest
          \<and> confirmTransaction c ?strategy = Inr u"
  with assms show "handleAirdrop w c l s =
              (emit (Alert ''Airdrop successful!'')
                 (handleShowBalance w c
                    (s\<lparr> isAirdropping := True,
                        effects := effects s @ [RequestAirdrop pk ?amount, GetLatestBlockhash,
                           ConfirmTransaction ?strategy] \<rparr>)))
              \<lparr> isAirdropping := False, airdropAmount := [] \<rparr>"
    by (simp add: handleAirdrop_def Let_def emit_def)
qed

text \<open>An airdrop of 1 on collaborators that all succeed.\<close>

theorem handleAirdrop_sequence_witness:
  "airdropAmount (handleAirdrop demo_wallet demo_connection demo_library demo_state) = []
   \<and> effects (handleAirdrop demo_wallet demo_connection demo_library demo_state) =
       [RequestAirdrop ''Alice'' (Finite 1000000000), GetLatestBlockhash,
        ConfirmTransaction \<lparr> cs_blockhash = ''hash'', cs_lastValidBlockHeight = 100, cs_signature = ''sig-airdrop'' \<rparr>,
        GetBalance ''Alice'', Alert ''Airdrop successful!'']
   \<and> balance (handleAirdrop demo_wallet demo_connection demo_library demo_state) = Finite (5 / 2)"
  using handleAirdrop_sequence [of demo_wallet "''Alice''" demo_state demo_connection demo_library
      "''sig-airdrop''" "\<lparr> blockhash = ''hash'', lastValidBlockHeight = 100 \<rparr>" "()"]
  by (simp add: handleShowBalance_def Let_def emit_def demo_wallet_def demo_connection_def
      demo_library_def demo_Number_def demo_state_def LAMPORTS_PER_SOL_def)

text \<open>
  Claim C8, as stated, fails on \<^verbatim>\<open>newApp.tsx\<close>: its airdrop requests the airdrop and
  does nothing else, and the amount field keeps its text whether the request succeeds or
  not.
\<close>

theorem new_handleAirdrop_only_requests:
  "airdropAmount (new_handleAirdrop demo_wallet demo_connection demo_library demo_new_state) = ''1''
   \<and> effects (new_handleAirdrop demo_wallet demo_connection demo_library demo_new_state) =
       [RequestAirdrop ''Alice'' (Finite 1000000000)]
   \<and> airdropAmount (new_handleAirdrop demo_wallet failing_connection demo_library demo_new_state) = ''1''"
  by (simp add: new_handleAirdrop_def new_airdrop_catch_def Let_def emit_def demo_wallet_def
      demo_connection_def failing_connection_def demo_library_def demo_Number_def demo_new_state_def
      LAMPORTS_PER_SOL_def)

section \<open>Message signing\<close>

text \<open>
  Claim C9, as amended. In both versions the handler ends with the success notification
  exactly when the wallet has a public key and can sign messages, the signing of the fixed
  message returns a signature, and \<^verbatim>\<open>ed25519.verify\<close> of that signature against the
  encoded message and the bytes of the public key returns true; in every other case it
  ends with the failure notification.
\<close>

theorem handleSignMessage_outcome:
  "last (effects (handleSignMessage w l s)) =
     (if \<exists>pk sign sg.
           publicKey w = Some pk \<and> signMessage w = Some sign
           \<and> sign (encode l ''Verify your account by signing this message'') = Inr sg
           \<and> verify l sg (encode l ''Verify your account by signing this message'') (toBytes l pk) = Inr True
      then Alert ''Message signed and verified successfully!''
      else Alert ''Sign message failed'')
   \<and> last (effects (new_handleSignMessage w l s)) =
     (if \<exists>pk sign sg.
           publicKey w = Some pk \<and> signMessage w = Some sign
           \<and> sign (encode l ''Verify your account by sigining message'') = Inr sg
           \<and> verify l sg (encode l ''Verify your account by sigining message'') (toBytes l pk) = Inr True
      then Alert ''Sign Message successfuly''
      else Alert ''Error while signing message'')"
  by (auto simp: handleSignMessage_def sign_catch_def new_handleSignMessage_def new_sign_catch_def
      Let_def emit_def split: option.split sum.split)

text \<open>A wallet that signs, and no wallet at all.\<close>

theorem handleSignMessage_outcome_witness:
  "last (effects (handleSignMessage demo_wallet demo_library demo_state)) =
     Alert ''Message signed and verified successfully!''
   \<and> last (effects (handleSignMessage disconnected_wallet demo_library demo_state)) =
     Alert ''Sign message failed''"
  using handleSignMessage_outcome [of demo_wallet demo_library demo_state]
    handleSignMessage_outcome [of disconnected_wallet demo_library demo_state]
  by (simp add: demo_wallet_def disconnected_wallet_def demo_library_def)

text \<open>
  Claim C9, as stated, fails when the user declines to sign: the wallet can sign messages
  and no verification has run, hence none has failed, and the handler still ends with the
  failure notification.
\<close>

theorem declined_signing_fails:
  "signMessage declining_wallet \<noteq> None
   \<and> publicKey declining_wallet = Some ''Alice''
   \<and> effects (handleSignMessage declining_wallet demo_library demo_state) =
       [SignMessage (encode demo_library ''Verify your account by signing this message''),
        ConsoleError ''Sign message failed:'' (Thrown ''User rejected the request''),
        Alert ''Sign message failed'']"
  by (simp add: handleSignMessage_def sign_catch_def Let_def emit_def declining_wallet_def
      demo_wallet_def demo_state_def)

section \<open>Transaction history\<close>

text \<open>
  The history fetch stores one record for each entry the RPC client returned, so at most
  \<open>limit\<close> of them when the client kept to the limit; a record whose block time is absent
  is dated at the epoch, and a record whose status is present carries it.
\<close>

lemma fetchHistory_transactions:
  assumes "connected w" and "publicKey w = Some pk"
    and "getSignaturesForAddress c pk limit = Inr signatures"
  shows "transactions (fetchHistory limit w c s) = map formatted signatures"
  using assms by (simp add: fetchHistory_def Let_def emit_def)

lemma fetchHistory_at_most_limit:
  assumes "connected w" and "publicKey w = Some pk"
    and "getSignaturesForAddress c pk limit = Inr signatures"
    and "length signatures \<le> limit"
  shows "length (transactions (fetchHistory limit w c s)) \<le> limit"
  using assms by (simp add: fetchHistory_transactions)

lemma formatted_epoch: "blockTime tx = None \<Longrightarrow> time (formatted tx) = Date 0"
  by (simp add: formatted_def)

lemma formatted_status:
  "confirmationStatus tx = Some st \<Longrightarrow> status (formatted tx) = Status st"
  by (simp add: formatted_def)

text \<open>
  Claim C3. The claim that every stored status is one of processed, confirmed, finalized
  and unknown does not hold of the code: an entry the RPC client returns without a
  confirmation status is stored with the status \<^verbatim>\<open>undefined\<close>, which is none of the
  four.
\<close>

theorem handleFetchHistory_undefined_status:
  "getSignaturesForAddress demo_connection ''Alice'' 10 = Inr demo_signatures
   \<and> map confirmationStatus demo_signatures = [Some Finalized, None]
   \<and> map status (transactions (handleFetchHistory demo_wallet demo_connection demo_state)) =
       [Status Finalized, Undefined]
   \<and> Undefined \<notin> {Status Processed, Status Confirmed, Status Finalized, Unknown}"
  by (simp add: handleFetchHistory_def fetchHistory_def formatted_def Let_def emit_def
      demo_wallet_def demo_connection_def demo_signatures_def)

end
